theory Spec2Isabelle
  imports Complex_Main
begin

section \<open>The multi-agent demonstration script: data model\<close>

text \<open>
  The program is one Python script, \<^verbatim>\<open>agent_stdio_multi_agent.py\<close>. It reads two
  credentials from the environment, builds a client for an external tool server, defines
  the tool \<^verbatim>\<open>weather_assistant\<close>, and runs an interactive loop inside the
  \<^verbatim>\<open>with stdio_mcp_client:\<close> scope.

  Everything the script calls in the libraries (the tool server's client, the agents, the
  model, \<^verbatim>\<open>input\<close>) is an effect of the outside world. The model takes the outcome of
  each such call as a parameter and keeps the script's own control flow: what it checks,
  what it catches, what it prints, and in which order.

  Python strings are sequences of code points; a \<^typ>\<open>string\<close> here is a sequence of
  code points below 256. The one text of the script that goes beyond them, the symbol that
  ends the farewell, is written as the bytes the source file holds for it.
\<close>

subsection \<open>Exceptions\<close>

text \<open>
  The script distinguishes exceptions only by the two classes its handlers name:
  \<^verbatim>\<open>KeyboardInterrupt\<close> and \<^verbatim>\<open>Exception\<close>. \<open>ValueError\<close> is the class the script raises
  itself; \<open>Exception\<close> stands for an instance of any other subclass of
  \<^verbatim>\<open>Exception\<close>, carrying the text that \<^verbatim>\<open>str(e)\<close> returns. \<open>KeyboardInterrupt\<close>
  and \<open>SystemExit\<close> derive from \<^verbatim>\<open>BaseException\<close> only.
\<close>

datatype exception =
    ValueError string
  | Exception string
  | KeyboardInterrupt
  | SystemExit

fun isinstance_Exception :: "exception \<Rightarrow> bool" where
  "isinstance_Exception (ValueError m) = True"
| "isinstance_Exception (Exception m) = True"
| "isinstance_Exception KeyboardInterrupt = False"
| "isinstance_Exception SystemExit = False"

fun isinstance_KeyboardInterrupt :: "exception \<Rightarrow> bool" where
  "isinstance_KeyboardInterrupt KeyboardInterrupt = True"
| "isinstance_KeyboardInterrupt e = False"

fun str :: "exception \<Rightarrow> string" where
  "str (ValueError m) = m"
| "str (Exception m) = m"
| "str KeyboardInterrupt = []"
| "str SystemExit = []"

subsection \<open>Strings\<close>

text \<open>
  \<^verbatim>\<open>str.lower()\<close> on code points below 256: the ASCII capitals and the Latin-1 capitals
  (192 to 214 and 216 to 222) move up by 32, every other code point stays.
\<close>

definition lower_char :: "char \<Rightarrow> char" where
  "lower_char c =
     (let n = (of_char c :: nat)
      in if (65 \<le> n \<and> n \<le> 90) \<or> (192 \<le> n \<and> n \<le> 214) \<or> (216 \<le> n \<and> n \<le> 222)
         then char_of (n + 32) else c)"

definition lower :: "string \<Rightarrow> string" where
  "lower s = map lower_char s"

text \<open>Two strings are equal up to case when their lower-case forms are equal.\<close>

definition case_insensitive_eq :: "string \<Rightarrow> string \<Rightarrow> bool" where
  "case_insensitive_eq s t = (lower s = lower t)"

subsection \<open>Credentials and the tool server's launch parameters (lines 21 to 40)\<close>

type_synonym environ = "string \<rightharpoonup> string"

text \<open>Python's truth value of \<^verbatim>\<open>os.environ.get(...)\<close>: \<^verbatim>\<open>None\<close> and the empty string are false.\<close>

fun truthy :: "string option \<Rightarrow> bool" where
  "truthy None = False"
| "truthy (Some s) = (s \<noteq> [])"

definition load_credentials :: "environ \<Rightarrow> exception + (string \<times> string)" where
  "load_credentials env =
     (case env ''API_KEY'' of
        None \<Rightarrow> Inl (ValueError ''API_KEY environment variable is not set.'')
      | Some API_KEY \<Rightarrow>
          if \<not> truthy (Some API_KEY)
          then Inl (ValueError ''API_KEY environment variable is not set.'')
          else (case env ''SHUTTERSTOCK_API_TOKEN'' of
                  None \<Rightarrow> Inl (ValueError ''SHUTTERSTOCK_API_TOKEN environment variable is not set.'')
                | Some SHUTTERSTOCK_API_TOKEN \<Rightarrow>
                    if \<not> truthy (Some SHUTTERSTOCK_API_TOKEN)
                    then Inl (ValueError ''SHUTTERSTOCK_API_TOKEN environment variable is not set.'')
                    else Inr (API_KEY, SHUTTERSTOCK_API_TOKEN)))"

text \<open>The \<^verbatim>\<open>env\<close> argument is a dictionary literal: an association list in insertion order.\<close>

record stdio_server_parameters =
  command :: string
  args :: "string list"
  env :: "(string \<times> string) list"

definition stdio_mcp_client :: "string \<Rightarrow> string \<Rightarrow> stdio_server_parameters" where
  "stdio_mcp_client API_KEY SHUTTERSTOCK_API_TOKEN =
     \<lparr> command = ''/usr/local/bin/node'',
       args = [''/Users/garystaf/Documents/Projects/mcp-server-node/mcp-server.js''],
       env = [(''API_KEY'', API_KEY), (''SHUTTERSTOCK_API_TOKEN'', SHUTTERSTOCK_API_TOKEN)] \<rparr>"

subsection \<open>Conversation manager, model and agents (lines 44 to 55, 95, 116 to 126)\<close>

record sliding_window_conversation_manager =
  window_size :: nat

definition conversation_manager :: sliding_window_conversation_manager where
  "conversation_manager = \<lparr> window_size = 20 \<rparr>"

record model_config =
  model_id :: string
  max_tokens :: nat
  temperature :: rat

definition bedrock_model :: model_config where
  "bedrock_model =
     \<lparr> model_id = ''us.amazon.nova-micro-v1:0'', max_tokens = 512, temperature = 1 / 2 \<rparr>"

datatype tool = MCPTool string | weather_assistant_tool | http_request | shell

text \<open>
  An agent object: the arguments of its constructor and the message history that its calls
  extend. A new agent has an empty history.
\<close>

record agent =
  system_prompt :: string
  tools :: "tool list"
  model :: "model_config option"
  conversation :: "sliding_window_conversation_manager option"
  messages :: "string list"

definition Agent ::
  "string \<Rightarrow> tool list \<Rightarrow> model_config option \<Rightarrow> sliding_window_conversation_manager option \<Rightarrow> agent"
where
  "Agent sp ts m cm =
     \<lparr> system_prompt = sp, tools = ts, model = m, conversation = cm, messages = [] \<rparr>"

definition quote :: string where
  "quote = [CHR 0x22]"

definition newline :: string where
  "newline = [CHR 0x0A]"

definition WEATHER_SYSTEM_PROMPT :: string where
  "WEATHER_SYSTEM_PROMPT =
     ''You are a weather assistant with HTTP capabilities. You can:'' @ newline @
     newline @
     ''1. Make HTTP requests to the National Weather Service API'' @ newline @
     ''2. Process and display weather forecast data'' @ newline @
     ''3. Provide weather information for locations in the United States'' @ newline @
     newline @
     ''When retrieving weather information:'' @ newline @
     ''1. Based on the city and state, get the latitude and longitude coordinates.'' @ newline @
     ''2. Use those coordinates with the following URL template: https://api.weather.gov/points/{latitude},{longitude}'' @ newline @
     ''3. Then use the returned forecast URL to get the actual forecast'' @ newline @
     newline @
     ''When displaying weather responses:'' @ newline @
     ''- Provide a single, concise sentence summarizing the actual current weather in that location.'' @ newline @
     ''- Do not include numerical details like temperature, wind speed, or humidity.'' @ newline @
     ''- Do not include the city or state name in the response; focus on the weather conditions only.'' @ newline @
     ''- Do not start with '' @ quote @ ''The weather is'' @ quote @ '' or similar phrases.'' @ newline @
     ''- Use natural language to describe the weather, e.g., '' @ quote @ ''It is sunny with a chance of rain later.'' @ quote @ newline @
     ''- Example responses: '' @ quote @ ''Cloudy with a chance of showers'' @ quote @ '' or '' @ quote @ ''Sunny and the sky is clear'' @ quote @ newline"

definition MAIN_SYSTEM_PROMPT :: string where
  "MAIN_SYSTEM_PROMPT =
     ''You are a helpful assistant that can use various tools to answer questions. '' @
     ''You can use tools like weather_forecast, search_shutterstock, echo, greet, calculate_area, and get_api_key. '' @
     ''Use the tools to get the weather forecast, find images from Shutterstock, calculate areas, retrieve API keys, and more.''"

section \<open>The tool \<open>weather_assistant\<close> (lines 79 to 101)\<close>

text \<open>
  \<open>run\<close> is the library and its backends: \<open>run a q\<close> is what calling the agent \<open>a\<close>
  on \<open>q\<close> and converting the response with \<^verbatim>\<open>str\<close> does, a returned text or a raised
  exception, together with the agent as the call leaves it. Each call of the tool allocates
  a new agent object; the heap lists the agent objects allocated so far.
\<close>

type_synonym heap = "agent list"

type_synonym agent_run = "agent \<Rightarrow> string \<Rightarrow> (exception + string) \<times> agent"

definition weather_assistant :: "agent_run \<Rightarrow> heap \<Rightarrow> string \<Rightarrow> (exception + string) \<times> heap" where
  "weather_assistant run h query =
     (let weather_agent = Agent WEATHER_SYSTEM_PROMPT [http_request] None None;
          (response, weather_agent') = run weather_agent query
      in (case response of
            Inr text \<Rightarrow> Inr text
          | Inl e \<Rightarrow>
              if isinstance_Exception e
              then Inr (''Error in weather assistant: '' @ str e)
              else Inl e,
          h @ [weather_agent']))"

text \<open>A series of calls of the tool, one after the other on the same heap.\<close>

fun weather_calls :: "agent_run \<Rightarrow> heap \<Rightarrow> string list \<Rightarrow> (exception + string) list \<times> heap" where
  "weather_calls run h [] = ([], h)"
| "weather_calls run h (q # qs) =
     (let (r, h') = weather_assistant run h q;
          (rs, h'') = weather_calls run h' qs
      in (r # rs, h''))"

section \<open>The session scope and the interactive loop (lines 104 to 152)\<close>

text \<open>What the process does that can be seen from outside, in order.\<close>

datatype event =
    SessionOpened stdio_server_parameters
  | SessionClosed
  | Printed string
  | Prompted string
  | AgentCalled agent string

definition ESC :: string where
  "ESC = [CHR 0x1B]"

definition RED :: string where
  "RED = ESC @ ''[31m''"

definition GREEN :: string where
  "GREEN = ESC @ ''[32m''"

definition BLUE :: string where
  "BLUE = ESC @ ''[34m''"

definition RESET :: string where
  "RESET = ESC @ ''[0m''"

text \<open>The texts the script prints, each as the f-string of the source builds it.\<close>

definition banner_text :: string where
  "banner_text = newline @ BLUE @ ''Strands Agents Demonstration'' @ RESET"

definition request_text :: string where
  "request_text =
     newline @ BLUE @ ''Type your request (or '' @ [CHR 0x27] @ ''exit'' @ [CHR 0x27] @
     '' to quit):'' @ RESET"

definition prompt_text :: string where
  "prompt_text = newline @ BLUE @ ''> '' @ RESET"

definition goodbye_text :: string where
  "goodbye_text =
     newline @ BLUE @ ''Goodbye! '' @
     [CHR 0xC3, CHR 0xB0, CHR 0xC5, CHR 0xB8, CHR 0xE2, CHR 0x80, CHR 0x98,
      CHR 0xE2, CHR 0x80, CHR 0xB9] @ RESET"

definition interrupted_text :: string where
  "interrupted_text = newline @ newline @ RED @ ''Execution interrupted. Exiting...'' @ RESET"

definition error_text :: "exception \<Rightarrow> string" where
  "error_text e = newline @ RED @ ''An error occurred: '' @ str e @ RESET"

definition retry_text :: string where
  "retry_text = RED @ ''Please try a different request.'' @ RESET"

text \<open>
  One pass of the loop meets the world twice: \<^verbatim>\<open>input\<close> returns a line or raises, and,
  when the line is dispatched, the orchestrator's call returns a response or raises.
\<close>

record turn =
  input_result :: "exception + string"
  agent_result :: "exception + string"

datatype step = Continue | Break | Propagate exception

text \<open>The two handlers of the loop, in the order of the source.\<close>

definition handlers :: "exception \<Rightarrow> event list \<Rightarrow> step \<times> event list" where
  "handlers e tr =
     (if isinstance_KeyboardInterrupt e
      then (Break, tr @ [Printed interrupted_text])
      else if isinstance_Exception e
      then (Continue, tr @ [Printed (error_text e), Printed retry_text])
      else (Propagate e, tr))"

definition loop_body :: "agent \<Rightarrow> turn \<Rightarrow> event list \<Rightarrow> step \<times> event list" where
  "loop_body orchestrator_agent t tr =
     (let tr1 = tr @ [Prompted prompt_text]
      in case input_result t of
           Inl e \<Rightarrow> handlers e tr1
         | Inr user_input \<Rightarrow>
             if lower user_input = ''exit'' \<or> lower user_input = ''quit''
             then (Break, tr1 @ [Printed goodbye_text])
             else (let tr2 = tr1 @ [AgentCalled orchestrator_agent user_input]
                   in case agent_result t of
                        Inl e \<Rightarrow> handlers e tr2
                      | Inr response \<Rightarrow> (Continue, tr2)))"

datatype completion = Normal | Raise exception

text \<open>
  \<^verbatim>\<open>while True\<close> over the turns the world supplies. When they run out the loop has not
  returned: the process sits in \<^verbatim>\<open>input\<close>, and the result is \<open>None\<close> with the events so far.
\<close>

fun interactive_loop :: "agent \<Rightarrow> turn list \<Rightarrow> event list \<Rightarrow> completion option \<times> event list" where
  "interactive_loop a [] tr = (None, tr)"
| "interactive_loop a (t # ts) tr =
     (case loop_body a t tr of
        (Continue, tr') \<Rightarrow> interactive_loop a ts tr'
      | (Break, tr') \<Rightarrow> (Some Normal, tr')
      | (Propagate e, tr') \<Rightarrow> (Some (Raise e), tr'))"

text \<open>
  The world of one run of the script: the environment, what entering and leaving the
  client's scope do (\<^verbatim>\<open>__exit__\<close> returns a truth value or raises), what the tool listing
  returns, and the turns.
\<close>

record world =
  environ :: environ
  enter_result :: "exception option"
  list_tools_result :: "exception + tool list"
  turns :: "turn list"
  exit_result :: "exception + bool"

definition orchestrator_agent :: "tool list \<Rightarrow> agent" where
  "orchestrator_agent discovered =
     Agent MAIN_SYSTEM_PROMPT
       (discovered @ [weather_assistant_tool, http_request, shell])
       (Some bedrock_model)
       (Some conversation_manager)"

definition scope_body :: "world \<Rightarrow> event list \<Rightarrow> completion option \<times> event list" where
  "scope_body w tr =
     (case list_tools_result w of
        Inl e \<Rightarrow> (Some (Raise e), tr)
      | Inr discovered \<Rightarrow>
          interactive_loop (orchestrator_agent discovered) (turns w)
            (tr @ [Printed banner_text, Printed request_text]))"

text \<open>
  Leaving a \<^verbatim>\<open>with\<close> block calls \<^verbatim>\<open>__exit__\<close>: what it raises replaces the block's
  outcome, and a true return value swallows the block's exception.
\<close>

fun context_exit :: "exception + bool \<Rightarrow> completion \<Rightarrow> completion" where
  "context_exit (Inl e') c = Raise e'"
| "context_exit (Inr suppress) Normal = Normal"
| "context_exit (Inr suppress) (Raise e) = (if suppress then Normal else Raise e)"

text \<open>
  How the process ends: the script ran to its last line (exit code 0), or an exception
  reached the top level.
\<close>

datatype process_exit = Exit0 | Uncaught exception

fun process_end :: "completion \<Rightarrow> process_exit" where
  "process_end Normal = Exit0"
| "process_end (Raise e) = Uncaught e"

definition main :: "world \<Rightarrow> process_exit option \<times> event list" where
  "main w =
     (case load_credentials (environ w) of
        Inl e \<Rightarrow> (Some (Uncaught e), [])
      | Inr (API_KEY, SHUTTERSTOCK_API_TOKEN) \<Rightarrow>
          (case enter_result w of
             Some e \<Rightarrow> (Some (Uncaught e), [])
           | None \<Rightarrow>
               (case scope_body w [SessionOpened (stdio_mcp_client API_KEY SHUTTERSTOCK_API_TOKEN)] of
                  (None, tr) \<Rightarrow> (None, tr)
                | (Some c, tr) \<Rightarrow>
                    (Some (process_end (context_exit (exit_result w) c)), tr @ [SessionClosed]))))"

definition sessions_opened :: "event list \<Rightarrow> nat" where
  "sessions_opened tr = length (filter (\<lambda>ev. case ev of SessionOpened p \<Rightarrow> True | _ \<Rightarrow> False) tr)"

definition teardowns :: "event list \<Rightarrow> nat" where
  "teardowns tr = length (filter (\<lambda>ev. ev = SessionClosed) tr)"

definition prompts :: "event list \<Rightarrow> nat" where
  "prompts tr = length (filter (\<lambda>ev. case ev of Prompted p \<Rightarrow> True | _ \<Rightarrow> False) tr)"

definition agent_calls :: "event list \<Rightarrow> (agent \<times> string) list" where
  "agent_calls tr = concat (map (\<lambda>ev. case ev of AgentCalled a s \<Rightarrow> [(a, s)] | _ \<Rightarrow> []) tr)"

section \<open>The bounded conversation window\<close>

text \<open>
  Modelled from the spec: the class \<^verbatim>\<open>SlidingWindowConversationManager\<close> is imported from
  the agent library and its code is not part of the script, which only sets
  \<^verbatim>\<open>window_size=20\<close>. The window below follows the specification's contract (section 4.3):
  \<^verbatim>\<open>append(message)\<close> adds to the ordered log and, if the resulting length exceeds the
  capacity, evicts from the front until the length equals the capacity;
  \<^verbatim>\<open>snapshot()\<close> returns the current window.
\<close>

record 'm conversation_window =
  capacity :: nat
  entries :: "'m list"

definition new_window :: "nat \<Rightarrow> 'm conversation_window" where
  "new_window C = \<lparr> capacity = C, entries = [] \<rparr>"

function evict :: "nat \<Rightarrow> 'm list \<Rightarrow> 'm list" where
  "evict N xs = (if N < length xs then evict N (tl xs) else xs)"
  by pat_completeness auto
termination
  by (relation "measure (\<lambda>(N, xs). length xs)") auto

declare evict.simps [simp del]

definition append_message :: "'m conversation_window \<Rightarrow> 'm \<Rightarrow> 'm conversation_window" where
  "append_message w m = w \<lparr> entries := evict (capacity w) (entries w @ [m]) \<rparr>"

definition snapshot :: "'m conversation_window \<Rightarrow> 'm list" where
  "snapshot w = entries w"

definition appends :: "'m conversation_window \<Rightarrow> 'm list \<Rightarrow> 'm conversation_window" where
  "appends w ms = foldl append_message w ms"

section \<open>Sample worlds\<close>

text \<open>
  Concrete backends, turns and worlds on which the theorems below are run: a backend whose
  call is interrupted, one that fails with an error, one that answers with the agent's whole
  history followed by the query, and one that answers with the query alone.
\<close>

definition interrupted_run :: agent_run where
  "interrupted_run a q = (Inl KeyboardInterrupt, a)"

definition failing_run :: agent_run where
  "failing_run a q = (Inl (Exception ''connection refused''), a)"

definition echo_run :: agent_run where
  "echo_run a q = (Inr (concat (messages a) @ q), a \<lparr> messages := messages a @ [q] \<rparr>)"

definition amnesic_run :: agent_run where
  "amnesic_run a q = (Inr q, a)"

definition interrupted_turn :: turn where
  "interrupted_turn = \<lparr> input_result = Inr ''weather in Boston'', agent_result = Inl KeyboardInterrupt \<rparr>"

definition failed_turn :: turn where
  "failed_turn = \<lparr> input_result = Inr ''weather in Boston'', agent_result = Inl (Exception ''throttled'') \<rparr>"

definition answered_turn :: turn where
  "answered_turn = \<lparr> input_result = Inr ''hello'', agent_result = Inr ''Hi!'' \<rparr>"

definition exit_turn :: turn where
  "exit_turn = \<lparr> input_result = Inr ''Exit'', agent_result = Inr [] \<rparr>"

definition crashing_turn :: turn where
  "crashing_turn = \<lparr> input_result = Inr ''hello'', agent_result = Inl SystemExit \<rparr>"

definition credentials :: environ where
  "credentials = [''API_KEY'' \<mapsto> ''key-1'', ''SHUTTERSTOCK_API_TOKEN'' \<mapsto> ''token-1'']"

definition crowded_environ :: environ where
  "crowded_environ =
     [''API_KEY'' \<mapsto> ''key-1'', ''SHUTTERSTOCK_API_TOKEN'' \<mapsto> ''token-1'',
      ''AWS_SECRET_ACCESS_KEY'' \<mapsto> ''secret'', ''HOME'' \<mapsto> ''/Users/garystaf'']"

definition session_world :: "turn list \<Rightarrow> world" where
  "session_world ts =
     \<lparr> environ = credentials, enter_result = None,
       list_tools_result = Inr [MCPTool ''search_shutterstock''],
       turns = ts, exit_result = Inr False \<rparr>"

definition empty_key_world :: world where
  "empty_key_world =
     (session_world [exit_turn])
       \<lparr> environ := [''API_KEY'' \<mapsto> [], ''SHUTTERSTOCK_API_TOKEN'' \<mapsto> ''token-1''] \<rparr>"

definition no_token_world :: world where
  "no_token_world = (session_world [exit_turn]) \<lparr> environ := [''API_KEY'' \<mapsto> ''key-1''] \<rparr>"

text \<open>
  The events the loop itself can add to the log: what it prints, its prompts, and calls of
  the one agent it was given.
\<close>

definition loop_event :: "agent \<Rightarrow> event \<Rightarrow> bool" where
  "loop_event a ev = (case ev of Printed x \<Rightarrow> True | Prompted x \<Rightarrow> True | AgentCalled b s \<Rightarrow> b = a | _ \<Rightarrow> False)"

section \<open>Properties of the conversation window\<close>

lemma evict_drop: "evict N xs = drop (length xs - N) xs"
proof (induction N xs rule: evict.induct)
  case (1 N xs)
  show ?case
  proof (cases "N < length xs")
    case True
    then have ne: "xs \<noteq> []" by auto
    have "evict N xs = evict N (tl xs)" using True by (subst evict.simps) simp
    also have "\<dots> = drop (length (tl xs) - N) (tl xs)" using 1 True by simp
    also have "\<dots> = drop (length xs - N) xs"
      using True ne by (cases xs) (simp_all add: Suc_diff_le)
    finally show ?thesis .
  next
    case False
    then show ?thesis by (subst evict.simps) simp
  qed
qed

lemma capacity_append_message: "capacity (append_message w m) = capacity w"
  by (simp add: append_message_def)

lemma capacity_appends: "capacity (appends w ms) = capacity w"
  unfolding appends_def by (induction ms arbitrary: w) (simp_all add: capacity_append_message)

lemma appends_snoc: "appends w (ms @ [m]) = append_message (appends w ms) m"
  by (simp add: appends_def)

lemma snapshot_appends: "snapshot (appends (new_window C) ms) = drop (length ms - C) ms"
proof (induction ms rule: rev_induct)
  case Nil
  show ?case by (simp add: appends_def new_window_def snapshot_def)
next
  case (snoc m ms)
  have cap: "capacity (appends (new_window C) ms) = C"
    by (simp add: capacity_appends new_window_def)
  have "snapshot (appends (new_window C) (ms @ [m]))
        = evict C (drop (length ms - C) ms @ [m])"
    using snoc cap by (simp add: appends_snoc append_message_def snapshot_def)
  also have "\<dots> = drop (length (ms @ [m]) - C) (ms @ [m])"
    by (cases "length ms < C") (auto simp: evict_drop Suc_diff_le)
  finally show ?case .
qed

lemma append_message_full:
  "length (entries w) = capacity w \<Longrightarrow> 0 < capacity w \<Longrightarrow>
   snapshot (append_message w m) = tl (snapshot w) @ [m]"
  by (cases "entries w") (auto simp: append_message_def snapshot_def evict_drop)

text \<open>
  Claim C1. Start from the empty window of capacity \<open>C\<close> and append the messages \<open>ms\<close>,
  at least one. The snapshot then has length \<open>min (length ms) C\<close>; after every prefix of the
  appends the length is at most \<open>C\<close>; the snapshot is the last \<open>min (length ms) C\<close> messages in
  their order; a full window loses its oldest message, and only that one, when a message
  is appended; and the script's capacity is 20, where 21 appends leave messages 2 to 21.
\<close>

theorem C1_window_keeps_most_recent:
  fixes ms :: "'m list"
  assumes "ms \<noteq> []"
  shows "length (snapshot (appends (new_window C) ms)) = min (length ms) C
       \<and> (\<forall>k \<le> length ms. length (snapshot (appends (new_window C) (take k ms))) \<le> C)
       \<and> snapshot (appends (new_window C) ms) = drop (length ms - C) ms
       \<and> (\<forall>(w :: 'm conversation_window) m.
            length (entries w) = capacity w \<and> 0 < capacity w
            \<longrightarrow> snapshot (append_message w m) = tl (snapshot w) @ [m])
       \<and> window_size conversation_manager = 20
       \<and> (length ms = 21
            \<longrightarrow> snapshot (appends (new_window (window_size conversation_manager)) ms) = tl ms)"
proof -
  have len: "length (snapshot (appends (new_window C) xs)) = min (length xs) C" for xs :: "'m list"
    by (simp add: snapshot_appends min_def)
  have bound: "\<forall>k \<le> length ms. length (snapshot (appends (new_window C) (take k ms))) \<le> C"
    by (simp add: len)
  have fifo: "\<forall>(w :: 'm conversation_window) m.
            length (entries w) = capacity w \<and> 0 < capacity w
            \<longrightarrow> snapshot (append_message w m) = tl (snapshot w) @ [m]"
    by (simp add: append_message_full)
  have cfg: "window_size conversation_manager = 20"
    by (simp add: conversation_manager_def)
  have last21: "length ms = 21
      \<longrightarrow> snapshot (appends (new_window (window_size conversation_manager)) ms) = tl ms"
    by (simp add: snapshot_appends cfg drop_Suc)
  show ?thesis
    using len [of ms] bound snapshot_appends [of C ms] fifo cfg last21 by blast
qed

theorem C1_window_keeps_most_recent_witness:
  "[1, 2, 3, 4, 5, 6, 7, 8, 9, 10, 11, 12, 13, 14, 15, 16, 17, 18, 19, 20, 21 :: nat] \<noteq> []
   \<and> length (snapshot (appends (new_window 20)
        [1, 2, 3, 4, 5, 6, 7, 8, 9, 10, 11, 12, 13, 14, 15, 16, 17, 18, 19, 20, 21 :: nat])) = 20
   \<and> snapshot (appends (new_window 20)
        [1, 2, 3, 4, 5, 6, 7, 8, 9, 10, 11, 12, 13, 14, 15, 16, 17, 18, 19, 20, 21 :: nat])
     = [2, 3, 4, 5, 6, 7, 8, 9, 10, 11, 12, 13, 14, 15, 16, 17, 18, 19, 20, 21]"
proof -
  have ne: "[1, 2, 3, 4, 5, 6, 7, 8, 9, 10, 11, 12, 13, 14, 15, 16, 17, 18, 19, 20, 21 :: nat] \<noteq> []"
    by simp
  show ?thesis
    using C1_window_keeps_most_recent [OF ne, of 20] by simp
qed

section \<open>Properties of \<open>weather_assistant\<close>\<close>

text \<open>
  Claim C2, as stated: the tool never raises past its boundary. It fails when the agent's
  run is interrupted: \<^verbatim>\<open>except Exception\<close> does not catch \<^verbatim>\<open>KeyboardInterrupt\<close>, which
  leaves the tool as an exception.
\<close>

theorem C2_interrupt_passes_through:
  "fst (weather_assistant interrupted_run [] ''Seattle, WA'') = Inl KeyboardInterrupt"
  by (simp add: weather_assistant_def interrupted_run_def)

text \<open>
  Claim C2, amended. For every query and every behaviour of the agent's run: a returned
  text is returned as it is; an exception of class \<^verbatim>\<open>Exception\<close> becomes the text
  \<^verbatim>\<open>Error in weather assistant: \<close> followed by \<^verbatim>\<open>str(e)\<close>; an exception outside that class
  (\<^verbatim>\<open>KeyboardInterrupt\<close>, \<^verbatim>\<open>SystemExit\<close>) is passed on; so when the run raises nothing
  outside \<^verbatim>\<open>Exception\<close> the tool returns a text.
\<close>

theorem C2_weather_assistant_converts_errors:
  "(\<forall>text. fst (run (Agent WEATHER_SYSTEM_PROMPT [http_request] None None) query) = Inr text
       \<longrightarrow> fst (weather_assistant run h query) = Inr text)
 \<and> (\<forall>e. fst (run (Agent WEATHER_SYSTEM_PROMPT [http_request] None None) query) = Inl e
          \<and> isinstance_Exception e
       \<longrightarrow> fst (weather_assistant run h query) = Inr (''Error in weather assistant: '' @ str e))
 \<and> (\<forall>e. fst (run (Agent WEATHER_SYSTEM_PROMPT [http_request] None None) query) = Inl e
          \<and> \<not> isinstance_Exception e
       \<longrightarrow> fst (weather_assistant run h query) = Inl e)
 \<and> ((\<forall>e. fst (run (Agent WEATHER_SYSTEM_PROMPT [http_request] None None) query) = Inl e
          \<longrightarrow> isinstance_Exception e)
       \<longrightarrow> (\<exists>text. fst (weather_assistant run h query) = Inr text))"
  by (cases "run (Agent WEATHER_SYSTEM_PROMPT [http_request] None None) query")
     (auto simp: weather_assistant_def split: sum.splits)

theorem C2_weather_assistant_converts_errors_witness:
  "fst (failing_run (Agent WEATHER_SYSTEM_PROMPT [http_request] None None) ''Seattle, WA'')
     = Inl (Exception ''connection refused'')
   \<and> isinstance_Exception (Exception ''connection refused'')
   \<and> fst (weather_assistant failing_run [] ''Seattle, WA'')
     = Inr ''Error in weather assistant: connection refused''"
proof -
  have h: "fst (failing_run (Agent WEATHER_SYSTEM_PROMPT [http_request] None None) ''Seattle, WA'')
     = Inl (Exception ''connection refused'') \<and> isinstance_Exception (Exception ''connection refused'')"
    by (simp add: failing_run_def)
  show ?thesis
    using h C2_weather_assistant_converts_errors [of failing_run "''Seattle, WA''" "[]"]
    by simp
qed

lemma weather_assistant_heap:
  "snd (weather_assistant run h q)
     = h @ [snd (run (Agent WEATHER_SYSTEM_PROMPT [http_request] None None) q)]"
  by (simp add: weather_assistant_def split: prod.splits)

lemma weather_assistant_result:
  "fst (weather_assistant run h q) = fst (weather_assistant run h' q)"
  by (simp add: weather_assistant_def split: prod.splits)

text \<open>
  Claim C9. Every call of the tool builds a new agent with the weather prompt, the single
  tool \<open>http_request\<close> and an empty history, runs the query on it, and keeps no reference to
  it: the heap grows by that one agent and the older objects stay as they were. The result
  is the same whatever calls came before, and it depends on the backend only through what
  the backend does with the new agent on this query.
\<close>

theorem C9_weather_agent_is_fresh:
  "Agent WEATHER_SYSTEM_PROMPT [http_request] None None
     = \<lparr> system_prompt = WEATHER_SYSTEM_PROMPT, tools = [http_request], model = None,
         conversation = None, messages = [] \<rparr>
 \<and> snd (weather_assistant run h q)
     = h @ [snd (run (Agent WEATHER_SYSTEM_PROMPT [http_request] None None) q)]
 \<and> fst (weather_assistant run (snd (weather_calls run h qs)) q) = fst (weather_assistant run [] q)
 \<and> (fst (run (Agent WEATHER_SYSTEM_PROMPT [http_request] None None) q)
       = fst (run' (Agent WEATHER_SYSTEM_PROMPT [http_request] None None) q)
     \<longrightarrow> fst (weather_assistant run h q) = fst (weather_assistant run' h' q))"
proof -
  have "fst (run (Agent WEATHER_SYSTEM_PROMPT [http_request] None None) q)
       = fst (run' (Agent WEATHER_SYSTEM_PROMPT [http_request] None None) q)
     \<longrightarrow> fst (weather_assistant run h q) = fst (weather_assistant run' h' q)"
    by (simp add: weather_assistant_def split: prod.splits)
  then show ?thesis
    using weather_assistant_heap [of run h q]
      weather_assistant_result [of run "snd (weather_calls run h qs)" q "[]"]
    by (simp add: Agent_def)
qed

theorem C9_weather_agent_is_fresh_witness:
  "fst (echo_run (Agent WEATHER_SYSTEM_PROMPT [http_request] None None) ''Boston, MA'')
     = fst (amnesic_run (Agent WEATHER_SYSTEM_PROMPT [http_request] None None) ''Boston, MA'')
   \<and> fst (weather_assistant echo_run (snd (weather_calls echo_run [] [''Seattle, WA''])) ''Boston, MA'')
     = Inr ''Boston, MA''
   \<and> fst (weather_assistant echo_run [] ''Boston, MA'')
     = fst (weather_assistant amnesic_run [Agent [] [] None None] ''Boston, MA'')"
proof -
  have same: "fst (echo_run (Agent WEATHER_SYSTEM_PROMPT [http_request] None None) ''Boston, MA'')
     = fst (amnesic_run (Agent WEATHER_SYSTEM_PROMPT [http_request] None None) ''Boston, MA'')"
    by (simp add: echo_run_def amnesic_run_def Agent_def)
  have one: "fst (weather_assistant echo_run [] ''Boston, MA'') = Inr ''Boston, MA''"
    by (simp add: weather_assistant_def echo_run_def Agent_def)
  show ?thesis
    using same one
      C9_weather_agent_is_fresh [where run = echo_run and h = "[]" and q = "''Boston, MA''"
        and qs = "[''Seattle, WA'']" and run' = amnesic_run and h' = "[Agent [] [] None None]"]
    by simp
qed

section \<open>Properties of the interactive loop\<close>

lemma lower_examples:
  "lower ''weather in Boston'' = ''weather in boston''"
  "lower ''hello'' = ''hello''"
  "lower ''Exit'' = ''exit''"
  "lower ''exit'' = ''exit''"
  "lower ''quit'' = ''quit''"
  by code_simp+

lemma fst_loop_body: "fst (loop_body a t tr) = fst (loop_body a' t tr')"
  by (auto simp: loop_body_def Let_def handlers_def split: sum.splits)

lemma loop_body_events:
  "\<exists>ps. snd (loop_body a t tr) = tr @ ps \<and> (\<forall>ev \<in> set ps. loop_event a ev)"
  by (auto simp: loop_body_def Let_def handlers_def loop_event_def split: sum.splits)

lemma interactive_loop_events:
  "\<exists>ps. snd (interactive_loop a ts tr) = tr @ ps \<and> (\<forall>ev \<in> set ps. loop_event a ev)"
proof (induction ts arbitrary: tr)
  case Nil
  show ?case by simp
next
  case (Cons t ts)
  obtain st tr' where lb: "loop_body a t tr = (st, tr')" by (cases "loop_body a t tr")
  from loop_body_events [of a t tr] lb obtain ps
    where ps: "tr' = tr @ ps" "\<forall>ev \<in> set ps. loop_event a ev" by auto
  show ?case
  proof (cases st)
    case Continue
    from Cons.IH [of tr'] obtain qs
      where qs: "snd (interactive_loop a ts tr') = tr' @ qs" "\<forall>ev \<in> set qs. loop_event a ev"
      by auto
    have "snd (interactive_loop a (t # ts) tr) = tr @ (ps @ qs)"
      using lb Continue ps qs by simp
    moreover have "\<forall>ev \<in> set (ps @ qs). loop_event a ev" using ps qs by auto
    ultimately show ?thesis by blast
  next
    case Break
    then show ?thesis using lb ps by auto
  next
    case (Propagate e)
    then show ?thesis using lb ps by auto
  qed
qed

lemma interactive_loop_running:
  "fst (interactive_loop a ts tr) = None \<Longrightarrow> t \<in> set ts \<Longrightarrow> fst (loop_body a' t tr') = Continue"
proof (induction ts arbitrary: tr)
  case Nil
  then show ?case by simp
next
  case (Cons u us)
  obtain st tr1 where lb: "loop_body a u tr = (st, tr1)" by (cases "loop_body a u tr")
  have st: "st = Continue" using Cons.prems(1) lb by (cases st) simp_all
  show ?case
  proof (cases "t = u")
    case True
    have "fst (loop_body a' t tr') = fst (loop_body a u tr)" using True fst_loop_body by blast
    then show ?thesis using lb st by simp
  next
    case False
    then have "t \<in> set us" using Cons.prems(2) by simp
    moreover have "fst (interactive_loop a us tr1) = None" using Cons.prems(1) lb st by simp
    ultimately show ?thesis using Cons.IH by blast
  qed
qed

lemma interactive_loop_append:
  "(\<forall>u \<in> set pre. fst (loop_body a u []) = Continue) \<Longrightarrow>
   interactive_loop a (pre @ rest) tr = interactive_loop a rest (snd (interactive_loop a pre tr))"
proof (induction pre arbitrary: tr)
  case Nil
  show ?case by simp
next
  case (Cons u us)
  obtain st tr1 where lb: "loop_body a u tr = (st, tr1)" by (cases "loop_body a u tr")
  have "fst (loop_body a u tr) = fst (loop_body a u [])" by (rule fst_loop_body)
  then have st: "st = Continue" using Cons.prems lb by simp
  show ?case using Cons.IH [of tr1] Cons.prems lb st by simp
qed

lemma turn_steps:
  "loop_body a answered_turn tr = (Continue, tr @ [Prompted prompt_text, AgentCalled a ''hello''])"
  "loop_body a exit_turn tr = (Break, tr @ [Prompted prompt_text, Printed goodbye_text])"
  "loop_body a interrupted_turn tr
     = (Break, tr @ [Prompted prompt_text, AgentCalled a ''weather in Boston'', Printed interrupted_text])"
  "loop_body a crashing_turn tr = (Propagate SystemExit, tr @ [Prompted prompt_text, AgentCalled a ''hello''])"
  by (simp_all add: loop_body_def handlers_def answered_turn_def exit_turn_def interrupted_turn_def
        crashing_turn_def lower_examples)

lemma exit_word_lower:
  "case_insensitive_eq s ''exit'' \<or> case_insensitive_eq s ''quit''
   \<longleftrightarrow> lower s = ''exit'' \<or> lower s = ''quit''"
  by (simp add: case_insensitive_eq_def lower_examples)

lemma loop_body_exit:
  "input_result t = Inr s \<Longrightarrow> lower s = ''exit'' \<or> lower s = ''quit'' \<Longrightarrow>
   loop_body a t tr = (Break, tr @ [Prompted prompt_text, Printed goodbye_text])"
  by (simp add: loop_body_def)

lemma loop_body_dispatch:
  "input_result t = Inr s \<Longrightarrow> \<not> (lower s = ''exit'' \<or> lower s = ''quit'') \<Longrightarrow>
   \<exists>tr'. snd (loop_body a t tr) = tr @ [Prompted prompt_text, AgentCalled a s] @ tr'"
  by (cases "agent_result t") (auto simp: loop_body_def handlers_def Let_def)

text \<open>
  Claim C4. When a dispatched input makes the orchestrator's call raise an exception of
  class \<^verbatim>\<open>Exception\<close>, the pass of the loop prints the error and the request to try again,
  and the loop goes on with the next turn: it neither ends nor lets the exception out.
\<close>

theorem C4_turn_errors_are_caught:
  assumes "input_result t = Inr user_input"
    and "\<not> (lower user_input = ''exit'' \<or> lower user_input = ''quit'')"
    and "agent_result t = Inl e"
    and "isinstance_Exception e"
  shows "loop_body a t tr
           = (Continue, tr @ [Prompted prompt_text, AgentCalled a user_input,
                              Printed (error_text e), Printed retry_text])
       \<and> interactive_loop a (t # ts) tr
           = interactive_loop a ts (tr @ [Prompted prompt_text, AgentCalled a user_input,
                                          Printed (error_text e), Printed retry_text])"
proof -
  have nk: "\<not> isinstance_KeyboardInterrupt e" using assms(4) by (cases e) simp_all
  have lb: "loop_body a t tr
           = (Continue, tr @ [Prompted prompt_text, AgentCalled a user_input,
                              Printed (error_text e), Printed retry_text])"
    using assms nk by (simp add: loop_body_def handlers_def)
  then show ?thesis by simp
qed

theorem C4_turn_errors_are_caught_witness:
  "input_result failed_turn = Inr ''weather in Boston''
   \<and> \<not> (lower ''weather in Boston'' = ''exit'' \<or> lower ''weather in Boston'' = ''quit'')
   \<and> agent_result failed_turn = Inl (Exception ''throttled'')
   \<and> isinstance_Exception (Exception ''throttled'')
   \<and> interactive_loop (orchestrator_agent []) [failed_turn, answered_turn] []
       = (None, [Prompted prompt_text, AgentCalled (orchestrator_agent []) ''weather in Boston'',
                 Printed (error_text (Exception ''throttled'')), Printed retry_text,
                 Prompted prompt_text, AgentCalled (orchestrator_agent []) ''hello''])"
proof -
  have h1: "input_result failed_turn = Inr ''weather in Boston''" by (simp add: failed_turn_def)
  have h2: "\<not> (lower ''weather in Boston'' = ''exit'' \<or> lower ''weather in Boston'' = ''quit'')"
    by (simp add: lower_examples)
  have h3: "agent_result failed_turn = Inl (Exception ''throttled'')" by (simp add: failed_turn_def)
  have h4: "isinstance_Exception (Exception ''throttled'')" by simp
  have nxt: "loop_body a answered_turn tr = (Continue, tr @ [Prompted prompt_text, AgentCalled a ''hello''])" for a tr
    by (simp add: loop_body_def answered_turn_def lower_examples)
  show ?thesis
    using h1 h2 h3 h4
      C4_turn_errors_are_caught [OF h1 h2 h3 h4, of "orchestrator_agent []" "[]" "[answered_turn]"]
    by (simp add: nxt)
qed

text \<open>
  Claim C5, as stated: an interrupt during an active turn aborts that turn only and the loop
  accepts further input. It fails: with the interrupt in the orchestrator's call of the
  first turn the loop ends, and the second turn is never prompted for.
\<close>

theorem C5_interrupt_in_turn_ends_loop:
  "interactive_loop (orchestrator_agent []) [interrupted_turn, answered_turn] []
     = (Some Normal, [Prompted prompt_text,
                      AgentCalled (orchestrator_agent []) ''weather in Boston'',
                      Printed interrupted_text])"
  by (simp add: loop_body_def handlers_def interrupted_turn_def lower_examples)

text \<open>
  Claim C5, amended. A \<^verbatim>\<open>KeyboardInterrupt\<close> ends the loop in both places: raised by
  \<^verbatim>\<open>input\<close>, or raised by the orchestrator's call on a dispatched input. In both the script
  prints the interruption message and leaves the loop normally; no later turn is read.
\<close>

theorem C5_interrupt_exits_loop:
  "(input_result t = Inl KeyboardInterrupt
      \<longrightarrow> interactive_loop a (t # ts) tr
            = (Some Normal, tr @ [Prompted prompt_text, Printed interrupted_text]))
 \<and> (input_result t = Inr user_input
      \<and> \<not> (lower user_input = ''exit'' \<or> lower user_input = ''quit'')
      \<and> agent_result t = Inl KeyboardInterrupt
      \<longrightarrow> interactive_loop a (t # ts) tr
            = (Some Normal, tr @ [Prompted prompt_text, AgentCalled a user_input,
                                  Printed interrupted_text]))"
  by (simp add: loop_body_def handlers_def)

theorem C5_interrupt_exits_loop_witness:
  "input_result \<lparr> input_result = Inl KeyboardInterrupt, agent_result = Inr [] \<rparr> = Inl KeyboardInterrupt
   \<and> interactive_loop (orchestrator_agent [])
        [\<lparr> input_result = Inl KeyboardInterrupt, agent_result = Inr [] \<rparr>, answered_turn] []
       = (Some Normal, [Prompted prompt_text, Printed interrupted_text])
   \<and> input_result interrupted_turn = Inr ''weather in Boston''
   \<and> \<not> (lower ''weather in Boston'' = ''exit'' \<or> lower ''weather in Boston'' = ''quit'')
   \<and> agent_result interrupted_turn = Inl KeyboardInterrupt
   \<and> prompts (snd (interactive_loop (orchestrator_agent []) [interrupted_turn, answered_turn] [])) = 1"
  using
    C5_interrupt_exits_loop [where t = "\<lparr> input_result = Inl KeyboardInterrupt, agent_result = Inr [] \<rparr>"
       and a = "orchestrator_agent []" and ts = "[answered_turn]" and tr = "[]"]
    C5_interrupt_exits_loop [where t = interrupted_turn and user_input = "''weather in Boston''"
       and a = "orchestrator_agent []" and ts = "[answered_turn]" and tr = "[]"]
  by (simp add: interrupted_turn_def lower_examples prompts_def)

section \<open>Properties of the whole run\<close>

lemma loop_events_counts:
  "\<forall>ev \<in> set ps. loop_event a ev \<Longrightarrow> sessions_opened ps = 0 \<and> teardowns ps = 0"
  by (induction ps) (auto simp: sessions_opened_def teardowns_def loop_event_def split: event.splits)

lemma sessions_opened_append: "sessions_opened (xs @ ys) = sessions_opened xs + sessions_opened ys"
  by (simp add: sessions_opened_def)

lemma teardowns_append: "teardowns (xs @ ys) = teardowns xs + teardowns ys"
  by (simp add: teardowns_def)

lemma scope_body_events:
  "\<exists>ps a. snd (scope_body w tr) = tr @ ps \<and> (\<forall>ev \<in> set ps. loop_event a ev)"
proof (cases "list_tools_result w")
  case (Inl e)
  then have "snd (scope_body w tr) = tr @ []" by (simp add: scope_body_def)
  then show ?thesis by fastforce
next
  case (Inr d)
  from interactive_loop_events [of "orchestrator_agent d" "turns w" "tr @ [Printed banner_text, Printed request_text]"]
  obtain ps where ps: "snd (interactive_loop (orchestrator_agent d) (turns w) (tr @ [Printed banner_text, Printed request_text]))
      = (tr @ [Printed banner_text, Printed request_text]) @ ps" "\<forall>ev \<in> set ps. loop_event (orchestrator_agent d) ev"
    by blast
  have "snd (scope_body w tr) = tr @ ([Printed banner_text, Printed request_text] @ ps)"
    using Inr ps by (simp add: scope_body_def)
  moreover have "\<forall>ev \<in> set ([Printed banner_text, Printed request_text] @ ps). loop_event (orchestrator_agent d) ev"
    using ps by (auto simp: loop_event_def)
  ultimately show ?thesis by blast
qed

lemma scope_body_running:
  "fst (scope_body w tr) = None \<Longrightarrow> t \<in> set (turns w) \<Longrightarrow> fst (loop_body a t tr') = Continue"
  by (cases "list_tools_result w") (auto simp: scope_body_def dest: interactive_loop_running)

lemma main_config_error:
  "load_credentials (environ w) = Inl e \<Longrightarrow> main w = (Some (Uncaught e), [])"
  by (simp add: main_def)

lemma main_enter_error:
  "load_credentials (environ w) = Inr c \<Longrightarrow> enter_result w = Some e \<Longrightarrow> main w = (Some (Uncaught e), [])"
  by (cases c) (simp add: main_def)

lemma main_in_scope:
  assumes "load_credentials (environ w) = Inr (k, t)" and "enter_result w = None"
  shows "\<exists>ps a. (\<forall>ev \<in> set ps. loop_event a ev)
          \<and> (scope_body w [SessionOpened (stdio_mcp_client k t)]
                = (None, SessionOpened (stdio_mcp_client k t) # ps)
              \<and> main w = (None, SessionOpened (stdio_mcp_client k t) # ps)
             \<or> (\<exists>c. scope_body w [SessionOpened (stdio_mcp_client k t)]
                       = (Some c, SessionOpened (stdio_mcp_client k t) # ps)
                    \<and> main w = (Some (process_end (context_exit (exit_result w) c)),
                                SessionOpened (stdio_mcp_client k t) # ps @ [SessionClosed])))"
proof -
  let ?o = "SessionOpened (stdio_mcp_client k t)"
  from scope_body_events [of w "[?o]"] obtain ps a
    where ps: "snd (scope_body w [?o]) = [?o] @ ps" "\<forall>ev \<in> set ps. loop_event a ev" by blast
  obtain r tr where sb: "scope_body w [?o] = (r, tr)" by (cases "scope_body w [?o]")
  have tr: "tr = ?o # ps" using ps sb by simp
  show ?thesis
  proof (cases r)
    case None
    then have "main w = (None, ?o # ps)" using assms sb tr by (simp add: main_def)
    then show ?thesis using ps(2) sb tr None by blast
  next
    case (Some c)
    then have "main w = (Some (process_end (context_exit (exit_result w) c)), ?o # ps @ [SessionClosed])"
      using assms sb tr by (simp add: main_def)
    then show ?thesis using ps(2) sb tr Some by blast
  qed
qed

lemma load_credentials_example: "load_credentials credentials = Inr (''key-1'', ''token-1'')"
  by (simp add: load_credentials_def credentials_def)

lemma main_examples:
  "fst (main (session_world [answered_turn, exit_turn])) = Some Exit0"
  "fst (main (session_world [crashing_turn])) = Some (Uncaught SystemExit)"
  "fst (main (session_world [interrupted_turn])) = Some Exit0"
  "fst (main (session_world [answered_turn])) = None"
  by (simp_all add: main_def session_world_def load_credentials_example scope_body_def turn_steps)

text \<open>
  Claim C3. In every run that has left the scope, the session was closed as often as it was
  opened, at most once, and the closing is the last event; a run whose credentials pass and
  whose \<^verbatim>\<open>__enter__\<close> returns opens the session exactly once. A run that has not left the
  scope has closed nothing, and every turn it was given so far let the loop continue: any
  turn that ends the loop, by \<^verbatim>\<open>exit\<close>, by an interrupt or by an exception that gets out,
  leads to the one closing.
\<close>

theorem C3_session_torn_down_once:
  "(fst (main w) \<noteq> None \<longrightarrow> teardowns (snd (main w)) = sessions_opened (snd (main w)))
 \<and> sessions_opened (snd (main w)) \<le> 1
 \<and> (fst (main w) \<noteq> None \<and> sessions_opened (snd (main w)) = 1
      \<longrightarrow> last (snd (main w)) = SessionClosed)
 \<and> ((\<exists>c. load_credentials (environ w) = Inr c) \<and> enter_result w = None
      \<longrightarrow> sessions_opened (snd (main w)) = 1)
 \<and> (fst (main w) = None
      \<longrightarrow> teardowns (snd (main w)) = 0 \<and> (\<forall>t \<in> set (turns w). fst (loop_body a t tr) = Continue))"
proof (cases "load_credentials (environ w)")
  case (Inl e)
  then show ?thesis by (simp add: main_config_error sessions_opened_def teardowns_def)
next
  case (Inr c)
  obtain k t where c: "c = (k, t)" by (cases c)
  show ?thesis
  proof (cases "enter_result w")
    case (Some e)
    then show ?thesis using Inr by (simp add: main_enter_error sessions_opened_def teardowns_def)
  next
    case None
    let ?o = "SessionOpened (stdio_mcp_client k t)"
    from main_in_scope [of w k t] Inr c None obtain ps b where
      ev: "\<forall>ev \<in> set ps. loop_event b ev" and
      alt: "(scope_body w [?o] = (None, ?o # ps) \<and> main w = (None, ?o # ps))
          \<or> (\<exists>c. scope_body w [?o] = (Some c, ?o # ps)
                \<and> main w = (Some (process_end (context_exit (exit_result w) c)), ?o # ps @ [SessionClosed]))"
      by blast
    have cnt: "sessions_opened ps = 0" "teardowns ps = 0" using loop_events_counts [OF ev] by simp_all
    have o1: "sessions_opened [?o] = 1" "teardowns [?o] = 0"
      by (simp_all add: sessions_opened_def teardowns_def)
    have c1: "sessions_opened [SessionClosed] = 0" "teardowns [SessionClosed] = 1"
      by (simp_all add: sessions_opened_def teardowns_def)
    from alt show ?thesis
    proof
      assume run: "scope_body w [?o] = (None, ?o # ps) \<and> main w = (None, ?o # ps)"
      have "sessions_opened (snd (main w)) = 1" "teardowns (snd (main w)) = 0"
        using run cnt o1 sessions_opened_append [of "[?o]" ps] teardowns_append [of "[?o]" ps]
        by simp_all
      moreover have "\<forall>t \<in> set (turns w). fst (loop_body a t tr) = Continue"
        using run scope_body_running [of w "[?o]"] by simp
      ultimately show ?thesis using run Inr None by simp
    next
      assume "\<exists>c. scope_body w [?o] = (Some c, ?o # ps)
                \<and> main w = (Some (process_end (context_exit (exit_result w) c)), ?o # ps @ [SessionClosed])"
      then obtain c' where
        m: "main w = (Some (process_end (context_exit (exit_result w) c')), ?o # ps @ [SessionClosed])"
        by blast
      have "sessions_opened (snd (main w)) = 1" "teardowns (snd (main w)) = 1"
        using m cnt o1 c1 sessions_opened_append [of "[?o]" "ps @ [SessionClosed]"]
          teardowns_append [of "[?o]" "ps @ [SessionClosed]"]
          sessions_opened_append [of ps "[SessionClosed]"] teardowns_append [of ps "[SessionClosed]"]
        by simp_all
      then show ?thesis using m Inr None by simp
    qed
  qed
qed

theorem C3_session_torn_down_once_witness:
  "fst (main (session_world [answered_turn, exit_turn])) = Some Exit0
   \<and> teardowns (snd (main (session_world [answered_turn, exit_turn]))) = 1
   \<and> last (snd (main (session_world [answered_turn, exit_turn]))) = SessionClosed
   \<and> fst (main (session_world [crashing_turn])) = Some (Uncaught SystemExit)
   \<and> teardowns (snd (main (session_world [crashing_turn]))) = 1
   \<and> fst (main (session_world [interrupted_turn])) = Some Exit0
   \<and> teardowns (snd (main (session_world [interrupted_turn]))) = 1
   \<and> fst (main (session_world [answered_turn])) = None
   \<and> teardowns (snd (main (session_world [answered_turn]))) = 0"
proof -
  have env: "\<exists>c. load_credentials (environ (session_world ts)) = Inr c"
    and ent: "enter_result (session_world ts) = None" for ts
    by (simp_all add: session_world_def load_credentials_example)
  show ?thesis
    using main_examples env ent
      C3_session_torn_down_once [where w = "session_world [answered_turn, exit_turn]"]
      C3_session_torn_down_once [where w = "session_world [crashing_turn]"]
      C3_session_torn_down_once [where w = "session_world [interrupted_turn]"]
      C3_session_torn_down_once [where w = "session_world [answered_turn]"]
    by simp
qed

text \<open>
  Claim C6, as stated: when both variables are present, startup goes on to open the session.
  It fails when a variable is present and empty: the check \<^verbatim>\<open>if not API_KEY\<close> treats the
  empty string as unset.
\<close>

theorem C6_empty_key_is_rejected:
  "environ empty_key_world ''API_KEY'' = Some []
   \<and> environ empty_key_world ''SHUTTERSTOCK_API_TOKEN'' = Some ''token-1''
   \<and> main empty_key_world
       = (Some (Uncaught (ValueError ''API_KEY environment variable is not set.'')), [])"
  by (simp add: empty_key_world_def session_world_def main_def load_credentials_def)

text \<open>
  Claim C6, amended. If either variable is absent or empty, the run ends with the
  \<^verbatim>\<open>ValueError\<close> that names the first such variable, and nothing has happened before it: the
  log is empty, no session was opened. If both are present and not empty, the credentials
  are accepted and the scope is entered: when \<^verbatim>\<open>__enter__\<close> returns, the first event is the
  opening of the session with these credentials.
\<close>

theorem C6_credentials_checked_first:
  "(environ w ''API_KEY'' = None \<or> environ w ''API_KEY'' = Some []
      \<longrightarrow> main w = (Some (Uncaught (ValueError ''API_KEY environment variable is not set.'')), []))
 \<and> (environ w ''API_KEY'' = Some k \<and> k \<noteq> []
      \<and> (environ w ''SHUTTERSTOCK_API_TOKEN'' = None \<or> environ w ''SHUTTERSTOCK_API_TOKEN'' = Some [])
      \<longrightarrow> main w = (Some (Uncaught (ValueError
                        ''SHUTTERSTOCK_API_TOKEN environment variable is not set.'')), []))
 \<and> (environ w ''API_KEY'' = Some k \<and> k \<noteq> []
      \<and> environ w ''SHUTTERSTOCK_API_TOKEN'' = Some t \<and> t \<noteq> []
      \<longrightarrow> load_credentials (environ w) = Inr (k, t)
        \<and> (\<forall>e. enter_result w = Some e \<longrightarrow> main w = (Some (Uncaught e), []))
        \<and> (enter_result w = None
             \<longrightarrow> (\<exists>tr. snd (main w) = SessionOpened (stdio_mcp_client k t) # tr)))"
proof -
  have a: "environ w ''API_KEY'' = None \<or> environ w ''API_KEY'' = Some []
      \<longrightarrow> main w = (Some (Uncaught (ValueError ''API_KEY environment variable is not set.'')), [])"
    by (auto simp: main_def load_credentials_def)
  have b: "environ w ''API_KEY'' = Some k \<and> k \<noteq> []
      \<and> (environ w ''SHUTTERSTOCK_API_TOKEN'' = None \<or> environ w ''SHUTTERSTOCK_API_TOKEN'' = Some [])
      \<longrightarrow> main w = (Some (Uncaught (ValueError
                        ''SHUTTERSTOCK_API_TOKEN environment variable is not set.'')), [])"
    by (auto simp: main_def load_credentials_def)
  have c: "load_credentials (environ w) = Inr (k, t)
        \<and> (\<forall>e. enter_result w = Some e \<longrightarrow> main w = (Some (Uncaught e), []))
        \<and> (enter_result w = None
             \<longrightarrow> (\<exists>tr. snd (main w) = SessionOpened (stdio_mcp_client k t) # tr))"
    if h: "environ w ''API_KEY'' = Some k \<and> k \<noteq> []
      \<and> environ w ''SHUTTERSTOCK_API_TOKEN'' = Some t \<and> t \<noteq> []"
  proof -
    have lc: "load_credentials (environ w) = Inr (k, t)" using h by (simp add: load_credentials_def)
    have "\<exists>tr. snd (main w) = SessionOpened (stdio_mcp_client k t) # tr" if "enter_result w = None"
      using main_in_scope [OF lc that] by auto
    then show ?thesis using lc by (auto simp: main_enter_error)
  qed
  show ?thesis using a b c by blast
qed

theorem C6_credentials_checked_first_witness:
  "environ no_token_world ''API_KEY'' = Some ''key-1'' \<and> ''key-1'' \<noteq> []
   \<and> environ no_token_world ''SHUTTERSTOCK_API_TOKEN'' = None
   \<and> main no_token_world
       = (Some (Uncaught (ValueError ''SHUTTERSTOCK_API_TOKEN environment variable is not set.'')), [])
   \<and> environ (session_world [exit_turn]) ''API_KEY'' = Some ''key-1''
   \<and> environ (session_world [exit_turn]) ''SHUTTERSTOCK_API_TOKEN'' = Some ''token-1''
   \<and> ''token-1'' \<noteq> []
   \<and> enter_result (session_world [exit_turn]) = None
   \<and> (\<exists>tr. snd (main (session_world [exit_turn]))
             = SessionOpened (stdio_mcp_client ''key-1'' ''token-1'') # tr)"
proof -
  have h1: "environ no_token_world ''API_KEY'' = Some ''key-1'' \<and> ''key-1'' \<noteq> []
     \<and> environ no_token_world ''SHUTTERSTOCK_API_TOKEN'' = None"
    by (simp add: no_token_world_def)
  have h2: "environ (session_world [exit_turn]) ''API_KEY'' = Some ''key-1''
     \<and> environ (session_world [exit_turn]) ''SHUTTERSTOCK_API_TOKEN'' = Some ''token-1''
     \<and> ''token-1'' \<noteq> [] \<and> enter_result (session_world [exit_turn]) = None"
    by (simp add: session_world_def credentials_def)
  show ?thesis
    using h1 h2
      C6_credentials_checked_first [where w = no_token_world and k = "''key-1''"]
      C6_credentials_checked_first [where w = "session_world [exit_turn]" and k = "''key-1''"
        and t = "''token-1''"]
    by simp
qed

text \<open>
  Claim C7. An input that equals \<^verbatim>\<open>exit\<close> or \<^verbatim>\<open>quit\<close> up to case ends the loop: after its
  prompt the script prints the farewell and nothing else, the orchestrator is not called,
  and the remaining turns are not read. In a whole run whose earlier turns all continued
  and whose \<^verbatim>\<open>__exit__\<close> returns, the process then ends with exit code 0, the farewell and
  the closing of the session being its last events. Every other input is handed to the
  orchestrator right after the prompt.
\<close>

theorem C7_exit_and_quit_end_the_loop:
  "(input_result t = Inr user_input
      \<and> (case_insensitive_eq user_input ''exit'' \<or> case_insensitive_eq user_input ''quit'')
      \<longrightarrow> interactive_loop a (t # ts) tr
            = (Some Normal, tr @ [Prompted prompt_text, Printed goodbye_text]))
 \<and> (input_result t = Inr user_input
      \<and> (case_insensitive_eq user_input ''exit'' \<or> case_insensitive_eq user_input ''quit'')
      \<and> load_credentials (environ w) = Inr c \<and> enter_result w = None
      \<and> list_tools_result w = Inr discovered \<and> exit_result w = Inr suppress
      \<and> turns w = pre @ t # ts
      \<and> (\<forall>u \<in> set pre. fst (loop_body (orchestrator_agent discovered) u []) = Continue)
      \<longrightarrow> fst (main w) = Some Exit0
        \<and> (\<exists>tr'. snd (main w) = tr' @ [Prompted prompt_text, Printed goodbye_text, SessionClosed]))
 \<and> (input_result t = Inr user_input
      \<and> \<not> (case_insensitive_eq user_input ''exit'' \<or> case_insensitive_eq user_input ''quit'')
      \<longrightarrow> (\<exists>tr'. snd (loop_body a t tr) = tr @ [Prompted prompt_text, AgentCalled a user_input] @ tr'))"
proof -
  have one: "interactive_loop b (t # ts) tr0
            = (Some Normal, tr0 @ [Prompted prompt_text, Printed goodbye_text])"
    if "input_result t = Inr user_input"
      and "case_insensitive_eq user_input ''exit'' \<or> case_insensitive_eq user_input ''quit''"
    for b tr0
    using that loop_body_exit [of t user_input b tr0] by (simp add: exit_word_lower)
  have two: "fst (main w) = Some Exit0
        \<and> (\<exists>tr'. snd (main w) = tr' @ [Prompted prompt_text, Printed goodbye_text, SessionClosed])"
    if i: "input_result t = Inr user_input"
      and x: "case_insensitive_eq user_input ''exit'' \<or> case_insensitive_eq user_input ''quit''"
      and lc: "load_credentials (environ w) = Inr c" and en: "enter_result w = None"
      and lt: "list_tools_result w = Inr discovered" and ex: "exit_result w = Inr suppress"
      and tw: "turns w = pre @ t # ts"
      and pre: "\<forall>u \<in> set pre. fst (loop_body (orchestrator_agent discovered) u []) = Continue"
  proof -
    obtain k tk where c: "c = (k, tk)" by (cases c)
    let ?a = "orchestrator_agent discovered"
    let ?tr0 = "[SessionOpened (stdio_mcp_client k tk), Printed banner_text, Printed request_text]"
    let ?tr1 = "snd (interactive_loop ?a pre ?tr0)"
    have "interactive_loop ?a (turns w) ?tr0 = interactive_loop ?a (t # ts) ?tr1"
      using tw interactive_loop_append [OF pre] by simp
    also have "\<dots> = (Some Normal, ?tr1 @ [Prompted prompt_text, Printed goodbye_text])"
      using one [OF i x] .
    finally have "scope_body w [SessionOpened (stdio_mcp_client k tk)]
        = (Some Normal, ?tr1 @ [Prompted prompt_text, Printed goodbye_text])"
      using lt by (simp add: scope_body_def)
    then have "main w = (Some Exit0, ?tr1 @ [Prompted prompt_text, Printed goodbye_text, SessionClosed])"
      using lc c en ex by (simp add: main_def)
    then show ?thesis by simp
  qed
  have three: "\<exists>tr'. snd (loop_body a t tr) = tr @ [Prompted prompt_text, AgentCalled a user_input] @ tr'"
    if "input_result t = Inr user_input"
      and "\<not> (case_insensitive_eq user_input ''exit'' \<or> case_insensitive_eq user_input ''quit'')"
    using that loop_body_dispatch [of t user_input a tr] by (simp add: exit_word_lower)
  show ?thesis using one [of a tr] two three by blast
qed

theorem C7_exit_and_quit_end_the_loop_witness:
  "input_result exit_turn = Inr ''Exit''
   \<and> (case_insensitive_eq ''Exit'' ''exit'' \<or> case_insensitive_eq ''Exit'' ''quit'')
   \<and> load_credentials (environ (session_world [answered_turn, exit_turn, answered_turn]))
       = Inr (''key-1'', ''token-1'')
   \<and> enter_result (session_world [answered_turn, exit_turn, answered_turn]) = None
   \<and> list_tools_result (session_world [answered_turn, exit_turn, answered_turn])
       = Inr [MCPTool ''search_shutterstock'']
   \<and> exit_result (session_world [answered_turn, exit_turn, answered_turn]) = Inr False
   \<and> turns (session_world [answered_turn, exit_turn, answered_turn])
       = [answered_turn] @ exit_turn # [answered_turn]
   \<and> fst (loop_body (orchestrator_agent [MCPTool ''search_shutterstock'']) answered_turn [])
       = Continue
   \<and> fst (main (session_world [answered_turn, exit_turn, answered_turn])) = Some Exit0
   \<and> prompts (snd (main (session_world [answered_turn, exit_turn, answered_turn]))) = 2
   \<and> input_result answered_turn = Inr ''hello''
   \<and> \<not> (case_insensitive_eq ''hello'' ''exit'' \<or> case_insensitive_eq ''hello'' ''quit'')
   \<and> (\<exists>tr'. snd (loop_body (orchestrator_agent []) answered_turn [])
         = [] @ [Prompted prompt_text, AgentCalled (orchestrator_agent []) ''hello''] @ tr')"
proof -
  let ?w = "session_world [answered_turn, exit_turn, answered_turn]"
  have h1: "input_result exit_turn = Inr ''Exit''
     \<and> (case_insensitive_eq ''Exit'' ''exit'' \<or> case_insensitive_eq ''Exit'' ''quit'')"
    by (simp add: exit_turn_def case_insensitive_eq_def lower_examples)
  have h2: "load_credentials (environ ?w) = Inr (''key-1'', ''token-1'')
     \<and> enter_result ?w = None \<and> list_tools_result ?w = Inr [MCPTool ''search_shutterstock'']
     \<and> exit_result ?w = Inr False \<and> turns ?w = [answered_turn] @ exit_turn # [answered_turn]"
    by (simp add: session_world_def load_credentials_example)
  have h3: "\<forall>u \<in> set [answered_turn].
         fst (loop_body (orchestrator_agent [MCPTool ''search_shutterstock'']) u []) = Continue"
    by (simp add: turn_steps)
  have h4: "input_result answered_turn = Inr ''hello''
     \<and> \<not> (case_insensitive_eq ''hello'' ''exit'' \<or> case_insensitive_eq ''hello'' ''quit'')"
    by (simp add: answered_turn_def case_insensitive_eq_def lower_examples)
  have p: "prompts (snd (main ?w)) = 2"
    by (simp add: main_def session_world_def load_credentials_example scope_body_def turn_steps
          prompts_def)
  show ?thesis
    using h1 h2 h3 h4 p
      C7_exit_and_quit_end_the_loop [where t = exit_turn and user_input = "''Exit''" and w = ?w
        and c = "(''key-1'', ''token-1'')" and discovered = "[MCPTool ''search_shutterstock'']"
        and suppress = False and pre = "[answered_turn]" and ts = "[answered_turn]"]
      C7_exit_and_quit_end_the_loop [where t = answered_turn and user_input = "''hello''"
        and a = "orchestrator_agent []" and tr = "[]"]
    by simp
qed

lemma load_credentials_cong:
  "e1 ''API_KEY'' = e2 ''API_KEY'' \<Longrightarrow>
   e1 ''SHUTTERSTOCK_API_TOKEN'' = e2 ''SHUTTERSTOCK_API_TOKEN'' \<Longrightarrow>
   load_credentials e1 = load_credentials e2"
  by (simp add: load_credentials_def split: option.splits)

lemma load_credentials_Inr:
  "load_credentials e = Inr (k, t) \<Longrightarrow>
   e ''API_KEY'' = Some k \<and> e ''SHUTTERSTOCK_API_TOKEN'' = Some t"
  by (auto simp: load_credentials_def split: option.splits if_splits)

lemma scope_body_environ: "scope_body (w \<lparr> environ := e \<rparr>) tr = scope_body w tr"
  by (simp add: scope_body_def split: sum.splits)

lemma main_environ:
  "load_credentials e1 = load_credentials e2 \<Longrightarrow>
   main (w \<lparr> environ := e1 \<rparr>) = main (w \<lparr> environ := e2 \<rparr>)"
  by (simp add: main_def scope_body_environ split: sum.splits prod.splits option.splits)

lemma loop_event_not_session: "loop_event a ev \<Longrightarrow> ev \<noteq> SessionOpened p"
  by (auto simp: loop_event_def)

lemma main_session_opened:
  assumes "SessionOpened p \<in> set (snd (main w))"
  shows "\<exists>k t. load_credentials (environ w) = Inr (k, t) \<and> p = stdio_mcp_client k t"
proof (cases "load_credentials (environ w)")
  case (Inl e)
  then show ?thesis using assms by (simp add: main_config_error)
next
  case (Inr c)
  obtain k t where c: "c = (k, t)" by (cases c)
  show ?thesis
  proof (cases "enter_result w")
    case (Some e)
    then show ?thesis using assms Inr by (simp add: main_enter_error)
  next
    case None
    from main_in_scope [of w k t] Inr c None obtain ps a where
      ev: "\<forall>ev \<in> set ps. loop_event a ev" and
      tr: "snd (main w) = SessionOpened (stdio_mcp_client k t) # ps
         \<or> snd (main w) = SessionOpened (stdio_mcp_client k t) # ps @ [SessionClosed]"
      by force
    have "SessionOpened p \<notin> set ps" using ev loop_event_not_session by blast
    then have "p = stdio_mcp_client k t" using assms tr by auto
    then show ?thesis using Inr c by simp
  qed
qed

text \<open>
  Claim C8. Two environments that agree on \<^verbatim>\<open>API_KEY\<close> and \<^verbatim>\<open>SHUTTERSTOCK_API_TOKEN\<close> give
  the same credentials and the same run, event for event, whatever else they contain. The
  \<^verbatim>\<open>env\<close> with which a session is opened has exactly two entries, these two
  variables with the values the environment gives them.
\<close>

theorem C8_only_credentials_forwarded:
  "(e1 ''API_KEY'' = e2 ''API_KEY'' \<and> e1 ''SHUTTERSTOCK_API_TOKEN'' = e2 ''SHUTTERSTOCK_API_TOKEN''
      \<longrightarrow> load_credentials e1 = load_credentials e2
        \<and> main (w \<lparr> environ := e1 \<rparr>) = main (w \<lparr> environ := e2 \<rparr>))
 \<and> (\<forall>p \<in> set (snd (main w)).
       \<forall>q. p = SessionOpened q
         \<longrightarrow> (\<exists>k t. environ w ''API_KEY'' = Some k \<and> environ w ''SHUTTERSTOCK_API_TOKEN'' = Some t
                  \<and> env q = [(''API_KEY'', k), (''SHUTTERSTOCK_API_TOKEN'', t)]))"
proof -
  have a: "load_credentials e1 = load_credentials e2
        \<and> main (w \<lparr> environ := e1 \<rparr>) = main (w \<lparr> environ := e2 \<rparr>)"
    if "e1 ''API_KEY'' = e2 ''API_KEY'' \<and> e1 ''SHUTTERSTOCK_API_TOKEN'' = e2 ''SHUTTERSTOCK_API_TOKEN''"
    using that load_credentials_cong [of e1 e2] main_environ [of e1 e2 w] by simp
  have b: "\<exists>k t. environ w ''API_KEY'' = Some k \<and> environ w ''SHUTTERSTOCK_API_TOKEN'' = Some t
                  \<and> env q = [(''API_KEY'', k), (''SHUTTERSTOCK_API_TOKEN'', t)]"
    if "SessionOpened q \<in> set (snd (main w))" for q
  proof -
    from main_session_opened [OF that] obtain k t
      where kt: "load_credentials (environ w) = Inr (k, t)" "q = stdio_mcp_client k t" by blast
    then show ?thesis using load_credentials_Inr [OF kt(1)] by (simp add: stdio_mcp_client_def)
  qed
  show ?thesis using a b by blast
qed

theorem C8_only_credentials_forwarded_witness:
  "credentials ''API_KEY'' = crowded_environ ''API_KEY''
   \<and> credentials ''SHUTTERSTOCK_API_TOKEN'' = crowded_environ ''SHUTTERSTOCK_API_TOKEN''
   \<and> crowded_environ ''AWS_SECRET_ACCESS_KEY'' \<noteq> credentials ''AWS_SECRET_ACCESS_KEY''
   \<and> main ((session_world [exit_turn]) \<lparr> environ := credentials \<rparr>)
       = main ((session_world [exit_turn]) \<lparr> environ := crowded_environ \<rparr>)
   \<and> SessionOpened (stdio_mcp_client ''key-1'' ''token-1'')
       \<in> set (snd (main ((session_world [exit_turn]) \<lparr> environ := crowded_environ \<rparr>)))
   \<and> env (stdio_mcp_client ''key-1'' ''token-1'')
       = [(''API_KEY'', ''key-1''), (''SHUTTERSTOCK_API_TOKEN'', ''token-1'')]"
proof -
  have h: "credentials ''API_KEY'' = crowded_environ ''API_KEY''
     \<and> credentials ''SHUTTERSTOCK_API_TOKEN'' = crowded_environ ''SHUTTERSTOCK_API_TOKEN''
     \<and> crowded_environ ''AWS_SECRET_ACCESS_KEY'' \<noteq> credentials ''AWS_SECRET_ACCESS_KEY''"
    by (simp add: credentials_def crowded_environ_def)
  have lc: "load_credentials crowded_environ = Inr (''key-1'', ''token-1'')"
    by (simp add: load_credentials_def crowded_environ_def)
  have m: "SessionOpened (stdio_mcp_client ''key-1'' ''token-1'')
       \<in> set (snd (main ((session_world [exit_turn]) \<lparr> environ := crowded_environ \<rparr>)))"
    by (simp add: main_def session_world_def lc scope_body_def turn_steps)
  show ?thesis
    using h m
      C8_only_credentials_forwarded [where ?e1.0 = credentials and ?e2.0 = crowded_environ
        and w = "session_world [exit_turn]"]
    by (simp add: stdio_mcp_client_def)
qed

lemma agent_calls_append: "agent_calls (xs @ ys) = agent_calls xs @ agent_calls ys"
  by (simp add: agent_calls_def)

lemma loop_events_agent_calls:
  "\<forall>ev \<in> set ps. loop_event a ev \<Longrightarrow> fst ` set (agent_calls ps) \<subseteq> {a}"
  by (induction ps) (auto simp: agent_calls_def loop_event_def split: event.splits)

lemma main_agent_calls:
  assumes "(b, s) \<in> set (agent_calls (snd (main w)))"
  shows "\<exists>discovered. list_tools_result w = Inr discovered \<and> b = orchestrator_agent discovered"
proof (cases "load_credentials (environ w)")
  case (Inl e)
  then show ?thesis using assms by (simp add: main_config_error agent_calls_def)
next
  case (Inr c)
  obtain k t where c: "c = (k, t)" by (cases c)
  show ?thesis
  proof (cases "enter_result w")
    case (Some e)
    then show ?thesis using assms Inr by (simp add: main_enter_error agent_calls_def)
  next
    case None
    let ?o = "SessionOpened (stdio_mcp_client k t)"
    show ?thesis
    proof (cases "list_tools_result w")
      case (Inl e)
      then have "main w = (Some (process_end (context_exit (exit_result w) (Raise e))), [?o, SessionClosed])"
        using Inr c None by (simp add: main_def scope_body_def)
      then show ?thesis using assms by (simp add: agent_calls_def)
    next
      case lt: (Inr d)
      let ?a = "orchestrator_agent d"
      let ?tr0 = "[?o, Printed banner_text, Printed request_text]"
      from interactive_loop_events [of ?a "turns w" ?tr0] obtain ps where
        ps: "snd (interactive_loop ?a (turns w) ?tr0) = ?tr0 @ ps" "\<forall>ev \<in> set ps. loop_event ?a ev"
        by blast
      have sb: "snd (scope_body w [?o]) = ?tr0 @ ps" using lt ps by (simp add: scope_body_def)
      have "snd (main w) = ?tr0 @ ps \<or> snd (main w) = (?tr0 @ ps) @ [SessionClosed]"
        using Inr c None sb by (cases "scope_body w [?o]") (auto simp: main_def split: option.splits)
      then have "set (agent_calls (snd (main w))) = set (agent_calls ps)"
        by (auto simp: agent_calls_append) (simp_all add: agent_calls_def)
      then have "b = ?a" using assms loop_events_agent_calls [OF ps(2)] by force
      then show ?thesis using lt by simp
    qed
  qed
qed

text \<open>
  Claim C10. The orchestrator's tools are the discovered tools followed by
  \<open>weather_assistant_tool\<close>, \<open>http_request\<close> and \<open>shell\<close>, in this order, so \<open>shell\<close> and
  \<open>http_request\<close> are always among them; and every call the run makes is a call of the
  agent built from the tool listing, with this tool list.
\<close>

theorem C10_orchestrator_tool_set:
  "tools (orchestrator_agent discovered) = discovered @ [weather_assistant_tool, http_request, shell]
 \<and> shell \<in> set (tools (orchestrator_agent discovered))
 \<and> http_request \<in> set (tools (orchestrator_agent discovered))
 \<and> (\<forall>(b, s) \<in> set (agent_calls (snd (main w))).
       \<exists>d. list_tools_result w = Inr d \<and> b = orchestrator_agent d
           \<and> tools b = d @ [weather_assistant_tool, http_request, shell])"
proof -
  have t: "tools (orchestrator_agent d) = d @ [weather_assistant_tool, http_request, shell]" for d
    by (simp add: orchestrator_agent_def Agent_def)
  have "\<exists>d. list_tools_result w = Inr d \<and> b = orchestrator_agent d
           \<and> tools b = d @ [weather_assistant_tool, http_request, shell]"
    if "(b, s) \<in> set (agent_calls (snd (main w)))" for b s
    using main_agent_calls [OF that] t by auto
  then show ?thesis using t [of discovered] by auto
qed

theorem C10_orchestrator_tool_set_witness:
  "agent_calls (snd (main (session_world [answered_turn, answered_turn, exit_turn])))
     = [(orchestrator_agent [MCPTool ''search_shutterstock''], ''hello''),
        (orchestrator_agent [MCPTool ''search_shutterstock''], ''hello'')]
   \<and> map (\<lambda>(b, s). tools b)
         (agent_calls (snd (main (session_world [answered_turn, answered_turn, exit_turn]))))
     = [[MCPTool ''search_shutterstock'', weather_assistant_tool, http_request, shell],
        [MCPTool ''search_shutterstock'', weather_assistant_tool, http_request, shell]]"
proof -
  have ev: "agent_calls (snd (main (session_world [answered_turn, answered_turn, exit_turn])))
     = [(orchestrator_agent [MCPTool ''search_shutterstock''], ''hello''),
        (orchestrator_agent [MCPTool ''search_shutterstock''], ''hello'')]"
    by (simp add: main_def session_world_def load_credentials_example scope_body_def turn_steps
          agent_calls_def)
  have lt: "list_tools_result (session_world [answered_turn, answered_turn, exit_turn])
      = Inr [MCPTool ''search_shutterstock'']"
    by (simp add: session_world_def)
  show ?thesis
    using ev lt
      C10_orchestrator_tool_set [where w = "session_world [answered_turn, answered_turn, exit_turn]"
        and discovered = "[MCPTool ''search_shutterstock'']"]
    by auto
qed

end
